theory Spec2Isabelle
  imports Main
begin

section \<open>The Stripe webhook of \<^verbatim>\<open>src/app/api/stripe/webhook/route.ts\<close>\<close>

text \<open>
  The handler \<^verbatim>\<open>POST\<close> receives one billing event, resolves the user it belongs to,
  and writes the \<^verbatim>\<open>subscriptions\<close> table. The model passes the state explicitly:
  the two tables, the two module-level maps and the list of cancellations requested
  from the provider. What the collaborators answer (the provider's
  \<^verbatim>\<open>subscriptions.retrieve\<close> and \<^verbatim>\<open>subscriptions.cancel\<close>, the clock, and
  whether a database call comes back with an error) is a parameter, the record
  \<open>env\<close>. Logging is left out: it has no effect on the tables or the response.
\<close>

subsection \<open>Data\<close>

text \<open>A row of the \<^verbatim>\<open>users\<close> table; the handler reads the columns \<^verbatim>\<open>id\<close> and
  \<^verbatim>\<open>email\<close> only. The column \<^verbatim>\<open>id\<close> is a \<^verbatim>\<open>uuid\<close> (the migration's
  \<^verbatim>\<open>check_user_exists(user_id UUID)\<close> compares it with one); \<open>u_id\<close> is its text.\<close>

record user =
  u_id :: string
  u_email :: string

text \<open>A row of the \<^verbatim>\<open>subscriptions\<close> table, with the columns the handler writes,
  holding the values as the handler passes them. Timestamps are milliseconds since the
  epoch (the value of the \<^verbatim>\<open>Date\<close> that \<^verbatim>\<open>toISOString\<close> renders).\<close>

record subscription_row =
  user_id :: string
  stripe_customer_id :: string
  stripe_subscription_id :: string
  status :: string
  price_id :: string
  current_period_end :: int
  cancel_at_period_end :: bool
  created_at :: int
  updated_at :: int

text \<open>\<^verbatim>\<open>Stripe.Subscription\<close>, with the fields the handler reads;
  \<open>ss_item_prices\<close> is \<^verbatim>\<open>items.data.map(item => item.price.id)\<close>, and
  \<open>ss_current_period_end\<close> is \<open>None\<close> when the object carries no
  \<^verbatim>\<open>current_period_end\<close> (the field reads \<^verbatim>\<open>undefined\<close>).\<close>

record stripe_subscription =
  ss_id :: string
  ss_customer :: string
  ss_status :: string
  ss_cancel_at_period_end :: bool
  ss_current_period_end :: "int option"
  ss_item_prices :: "string list"

text \<open>\<^verbatim>\<open>Stripe.Checkout.Session\<close>: a field that is \<^verbatim>\<open>null\<close> is \<open>None\<close>;
  \<open>customer_details_email\<close> is \<^verbatim>\<open>session.customer_details?.email\<close>.\<close>

record session =
  client_reference_id :: "string option"
  customer :: "string option"
  subscription :: "string option"
  customer_details_email :: "string option"
  customer_email :: "string option"

record StoredSessionData =
  userId :: string
  customerId :: string

record StoredSubscriptionData =
  pending_id :: string
  pending_customer :: string

datatype event =
    CheckoutSessionCompleted session
  | SubscriptionCreated stripe_subscription
  | SubscriptionUpdated stripe_subscription
  | SubscriptionPendingUpdateApplied stripe_subscription
  | SubscriptionPendingUpdateExpired stripe_subscription
  | SubscriptionTrialWillEnd stripe_subscription
  | SubscriptionDeleted stripe_subscription
  | OtherEvent string

text \<open>The JSON bodies the handler answers with, and the response: HTTP status and body
  (\<^verbatim>\<open>NextResponse.json\<close> without a status answers 200).\<close>

datatype body =
    SignatureVerificationFailed
  | MissingSubscriptionId
  | MissingCustomerId
  | UserNotFound
  | NoEmailToIdentifyUser
  | UserIdNotValid
  | UserIdNotValidNoEmail
  | Blocked
  | ReceivedWithWarning
  | Received
  | WebhookHandlerFailed

type_synonym response = "nat \<times> body"

text \<open>What \<^verbatim>\<open>createSubscription\<close> and the provider calls throw.\<close>

datatype error =
    MissingParameters
  | UserIdNotFound string
  | ProviderError
  | StoreError
  | RangeError

text \<open>The database calls of the handler, one name for each place a query is issued.\<close>

datatype call_site =
    CheckExisting
  | FindByEmailFirst
  | FindByEmailRetry
  | ValidateUser
  | UpsertUser
  | UpsertCheck
  | UpsertUpdate
  | UpsertInsert
  | UpsertVerify
  | EventUpdate
  | EventDelete

text \<open>
  The collaborators during one request. \<open>retrieve\<close> is
  \<^verbatim>\<open>stripe.subscriptions.retrieve\<close> (\<open>None\<close>: the call throws); \<open>cancel_throws\<close>
  says whether \<^verbatim>\<open>stripe.subscriptions.cancel\<close> throws; \<open>clock n\<close> is the
  \<open>n\<close>-th reading of \<^verbatim>\<open>new Date()\<close> made for the row being written
  (the readings of the logger apart);
  \<open>db_error c\<close> says that the query issued at \<open>c\<close> comes back as
  \<^verbatim>\<open>{ data: null, error }\<close> with an error that is not the no-rows code of
  \<^verbatim>\<open>.single()\<close>, and writes nothing. The Supabase client resolves with the error;
  it does not throw.
\<close>

record env =
  retrieve :: "string \<Rightarrow> stripe_subscription option"
  cancel_throws :: "string \<Rightarrow> bool"
  clock :: "nat \<Rightarrow> int"
  db_error :: "call_site \<Rightarrow> bool"

record state =
  users :: "user list"
  subscriptions :: "subscription_row list"
  checkoutSessionMap :: "string \<rightharpoonup> StoredSessionData"
  pendingSubscriptions :: "string \<rightharpoonup> StoredSubscriptionData"
  cancel_requests :: "string list"

subsection \<open>JavaScript and database primitives\<close>

text \<open>Truthiness of a \<^verbatim>\<open>string | null\<close>: \<^verbatim>\<open>null\<close> and the empty string are falsy.\<close>

fun truthy :: "string option \<Rightarrow> bool" where
  "truthy None = False"
| "truthy (Some v) = (v \<noteq> [])"

text \<open>\<^verbatim>\<open>a || b\<close> on \<^verbatim>\<open>string | null\<close>.\<close>

definition or_else :: "string option \<Rightarrow> string option \<Rightarrow> string option" where
  "or_else a b = (if truthy a then a else b)"

text \<open>\<^verbatim>\<open>x || ''\<close>, and the value used where the source writes \<^verbatim>\<open>x as string\<close>
  after it has tested that \<^verbatim>\<open>x\<close> is truthy.\<close>

fun str_of :: "string option \<Rightarrow> string" where
  "str_of None = []"
| "str_of (Some v) = v"

text \<open>\<^verbatim>\<open>.single()\<close>: the row when the query yields exactly one, and
  \<^verbatim>\<open>data: null\<close> (with the error code PGRST116) when it yields none or several.\<close>

fun single_row :: "'a list \<Rightarrow> 'a option" where
  "single_row [x] = Some x"
| "single_row xs = None"

definition select_single :: "bool \<Rightarrow> 'a list \<Rightarrow> 'a option" where
  "select_single failed rows = (if failed then None else single_row rows)"

text \<open>ASCII case folding, as \<^verbatim>\<open>ILIKE\<close> and the \<^verbatim>\<open>/i\<close> flag apply it to the
  letters A to Z.\<close>

definition lower_char :: "char \<Rightarrow> char" where
  "lower_char c =
     (case map_of (zip ''ABCDEFGHIJKLMNOPQRSTUVWXYZ'' ''abcdefghijklmnopqrstuvwxyz'') c of
        None \<Rightarrow> c
      | Some d \<Rightarrow> d)"

definition is_hex :: "char \<Rightarrow> bool" where
  "is_hex c = (lower_char c \<in> set ''0123456789abcdef'')"

text \<open>The pattern
  \<^verbatim>\<open>/^[0-9a-f]{8}-[0-9a-f]{4}-[0-9a-f]{4}-[0-9a-f]{4}-[0-9a-f]{12}$/i\<close>:
  \<open>hexs n\<close> consumes exactly \<open>n\<close> hexadecimal digits, \<open>dash\<close> one hyphen, and the
  whole string must be consumed.\<close>

fun hexs :: "nat \<Rightarrow> string \<Rightarrow> string option" where
  "hexs 0 cs = Some cs"
| "hexs (Suc n) [] = None"
| "hexs (Suc n) (c # cs) = (if is_hex c then hexs n cs else None)"

fun dash :: "string \<Rightarrow> string option" where
  "dash [] = None"
| "dash (c # cs) = (if c = CHR ''-'' then Some cs else None)"

definition is_uuid :: "string \<Rightarrow> bool" where
  "is_uuid v =
     (Option.bind (Option.bind (Option.bind (Option.bind (Option.bind (Option.bind
        (Option.bind (Option.bind (hexs 8 v) dash) (hexs 4)) dash) (hexs 4)) dash)
        (hexs 4)) dash) (hexs 12) = Some [])"

text \<open>
  \<^verbatim>\<open>.ilike('email', email)\<close> is PostgreSQL's \<^verbatim>\<open>email ILIKE pattern\<close> (the
  migration's \<^verbatim>\<open>find_user_by_email\<close> writes the same operator), and the pattern is
  the event's email as it comes: \<^verbatim>\<open>%\<close> (or PostgREST's alias \<^verbatim>\<open>*\<close>) stands
  for any run of characters, \<^verbatim>\<open>_\<close> for any one character, and a backslash takes
  the next character literally. A pattern that ends in a lone backslash is an error of
  the query, which yields no row. \<open>like_match pattern text\<close>:
\<close>

fun like_match :: "string \<Rightarrow> string \<Rightarrow> bool" where
  "like_match [] [] = True"
| "like_match [] (c # cs) = False"
| "like_match (p # ps) [] = ((p = CHR ''%'' \<or> p = CHR ''*'') \<and> like_match ps [])"
| "like_match (p # ps) (c # cs) =
     (if p = CHR ''%'' \<or> p = CHR ''*'' then like_match ps (c # cs) \<or> like_match (p # ps) cs
      else if p = CHR ''_'' then like_match ps cs
      else if p = CHR 0x5C then
        (case ps of [] \<Rightarrow> False | q # qs \<Rightarrow> q = c \<and> like_match qs cs)
      else p = c \<and> like_match ps cs)"

definition ilike :: "string \<Rightarrow> string \<Rightarrow> bool" where
  "ilike pattern text = like_match (map lower_char pattern) (map lower_char text)"

text \<open>
  \<^verbatim>\<open>new Date(seconds * 1000).toISOString()\<close>: the milliseconds of the date, and
  \<open>None\<close> for the \<^verbatim>\<open>RangeError\<close> that \<^verbatim>\<open>toISOString\<close> throws on an invalid
  date. The date is invalid when the field is absent (\<^verbatim>\<open>undefined * 1000\<close> is
  \<^verbatim>\<open>NaN\<close>) and when the product lies outside the range of \<^verbatim>\<open>Date\<close>, which is
  8.64e15 milliseconds either side of the epoch. Inside the range the product of an
  integer by 1000 is exact in a double.
\<close>

definition toISOString :: "int option \<Rightarrow> int option" where
  "toISOString seconds =
     (case seconds of
        None \<Rightarrow> None
      | Some n \<Rightarrow>
          if - 8640000000000000 \<le> n * 1000 \<and> n * 1000 \<le> 8640000000000000
          then Some (n * 1000) else None)"

text \<open>
  A key compared with a \<^verbatim>\<open>uuid\<close> column is read by PostgreSQL's uuid input:
  sixteen pairs of hexadecimal digits in either case, a hyphen allowed after every
  second pair but the last, the whole optionally in braces. \<open>pg_uuid\<close> gives the
  thirty-two digits in lower case, and \<open>None\<close> where the input is refused (the
  query then comes back with an error and no row). \<open>uuid_bytes n odd src\<close> reads
  \<open>n\<close> more pairs, \<open>odd\<close> telling whether the index of the next pair is odd.
\<close>

definition skip_hyphen :: "bool \<Rightarrow> string \<Rightarrow> string" where
  "skip_hyphen allowed src =
     (case src of
        [] \<Rightarrow> []
      | c # cs \<Rightarrow> if allowed \<and> c = CHR ''-'' then cs else c # cs)"

fun uuid_bytes :: "nat \<Rightarrow> bool \<Rightarrow> string \<Rightarrow> (string \<times> string) option" where
  "uuid_bytes 0 odd_index src = Some ([], src)"
| "uuid_bytes (Suc n) odd_index (a # b # src) =
     (if is_hex a \<and> is_hex b then
        (case uuid_bytes n (\<not> odd_index) (skip_hyphen (odd_index \<and> n \<noteq> 0) src) of
           None \<Rightarrow> None
         | Some (digits, rest) \<Rightarrow> Some (lower_char a # lower_char b # digits, rest))
      else None)"
| "uuid_bytes (Suc n) odd_index src = None"

definition pg_uuid :: "string \<Rightarrow> string option" where
  "pg_uuid source =
     (let braces = (take 1 source = ''{'');
          src = (if braces then drop 1 source else source)
      in case uuid_bytes 16 False src of
           None \<Rightarrow> None
         | Some (digits, rest) \<Rightarrow>
             if rest = (if braces then ''}'' else []) then Some digits else None)"

text \<open>\<^verbatim>\<open>.update(values).eq(column, key)\<close>: every row the filter selects is changed.
  On the text columns of \<^verbatim>\<open>subscriptions\<close> an \<^verbatim>\<open>.eq\<close> filter compares the
  stored text with the key.\<close>

definition update_where ::
  "('a \<Rightarrow> bool) \<Rightarrow> ('a \<Rightarrow> 'a) \<Rightarrow> 'a list \<Rightarrow> 'a list" where
  "update_where sel change rows = map (\<lambda>r. if sel r then change r else r) rows"

subsection \<open>The helpers of the route\<close>

text \<open>\<^verbatim>\<open>checkExistingSubscription\<close>: the query's error is dropped and the answer is
  \<^verbatim>\<open>!!existingSubs\<close>.\<close>

definition active_rows :: "state \<Rightarrow> string \<Rightarrow> subscription_row list" where
  "active_rows s cust =
     filter (\<lambda>r. stripe_customer_id r = cust \<and> status r \<in> set [''active'', ''trialing''])
       (subscriptions s)"

definition checkExistingSubscription :: "env \<Rightarrow> state \<Rightarrow> string \<Rightarrow> bool" where
  "checkExistingSubscription e s cust =
     (case select_single (db_error e CheckExisting) (active_rows s cust) of
        None \<Rightarrow> False
      | Some existingSubs \<Rightarrow> True)"

text \<open>\<^verbatim>\<open>findUserIdByEmail\<close>; \<open>failed\<close> is the query's error.\<close>

definition findUserIdByEmail :: "bool \<Rightarrow> state \<Rightarrow> string \<Rightarrow> string option" where
  "findUserIdByEmail failed s email =
     (case select_single failed (filter (\<lambda>u. ilike email (u_email u)) (users s)) of
        None \<Rightarrow> None
      | Some u \<Rightarrow> Some (u_id u))"

definition rows_with_id :: "state \<Rightarrow> string \<Rightarrow> subscription_row list" where
  "rows_with_id s subscriptionId =
     filter (\<lambda>r. stripe_subscription_id r = subscriptionId) (subscriptions s)"

text \<open>\<^verbatim>\<open>.from('users').select('id').eq('id', userId)\<close>: the rows whose identifier is
  the uuid the key denotes, none when the key is no uuid.\<close>

definition users_with_id :: "state \<Rightarrow> string \<Rightarrow> user list" where
  "users_with_id s uid =
     (case pg_uuid uid of
        None \<Rightarrow> []
      | Some v \<Rightarrow> filter (\<lambda>u. pg_uuid (u_id u) = Some v) (users s))"

text \<open>The values \<^verbatim>\<open>createSubscription\<close> writes over a stored row, and the row it
  inserts; \<open>periodEnd\<close> is the period end once converted, and the price is
  \<^verbatim>\<open>items.data[0]?.price.id || 'unknown'\<close>.\<close>

definition refresh_row ::
  "env \<Rightarrow> stripe_subscription \<Rightarrow> int \<Rightarrow> subscription_row \<Rightarrow> subscription_row" where
  "refresh_row e stripeSubscription periodEnd r =
     r\<lparr>status := ss_status stripeSubscription,
       current_period_end := periodEnd,
       cancel_at_period_end := ss_cancel_at_period_end stripeSubscription,
       updated_at := clock e 0\<rparr>"

definition first_price :: "stripe_subscription \<Rightarrow> string" where
  "first_price stripeSubscription =
     (case ss_item_prices stripeSubscription of
        [] \<Rightarrow> ''unknown''
      | p # ps \<Rightarrow> (if p = [] then ''unknown'' else p))"

definition newSubscription ::
  "env \<Rightarrow> stripe_subscription \<Rightarrow> int \<Rightarrow> string \<Rightarrow> string \<Rightarrow> string \<Rightarrow> subscription_row" where
  "newSubscription e stripeSubscription periodEnd subscriptionId uid cust =
     \<lparr>user_id = uid,
      stripe_customer_id = cust,
      stripe_subscription_id = subscriptionId,
      status = ss_status stripeSubscription,
      price_id = first_price stripeSubscription,
      current_period_end = periodEnd,
      cancel_at_period_end = ss_cancel_at_period_end stripeSubscription,
      created_at = clock e 0,
      updated_at = clock e 1\<rparr>"

text \<open>\<^verbatim>\<open>createSubscription\<close>. Every \<^verbatim>\<open>throw\<close> is an \<open>Inl\<close>, and none of them
  comes after a write: the object handed to \<^verbatim>\<open>update\<close> or \<^verbatim>\<open>insert\<close> is built,
  and its period end converted, before the call. The result is the row returned
  (\<^verbatim>\<open>data || verifyData\<close> on the insert path, where \<^verbatim>\<open>data\<close> is \<^verbatim>\<open>null\<close>
  because the insert selects nothing) and the new state.\<close>

definition createSubscription ::
  "env \<Rightarrow> state \<Rightarrow> string \<Rightarrow> string \<Rightarrow> string \<Rightarrow> error + (subscription_row option \<times> state)" where
  "createSubscription e s subscriptionId uid cust =
     (if subscriptionId = [] \<or> uid = [] \<or> cust = [] then Inl MissingParameters
      else case select_single (db_error e UpsertUser) (users_with_id s uid) of
        None \<Rightarrow> Inl (UserIdNotFound uid)
      | Some userExists \<Rightarrow>
          (case retrieve e subscriptionId of
             None \<Rightarrow> Inl ProviderError
           | Some stripeSubscription \<Rightarrow>
               if db_error e UpsertCheck then Inl StoreError
               else
                 (case single_row (rows_with_id s subscriptionId) of
                    Some existingData \<Rightarrow>
                      (case toISOString (ss_current_period_end stripeSubscription) of
                         None \<Rightarrow> Inl RangeError
                       | Some periodEnd \<Rightarrow>
                           if db_error e UpsertUpdate then Inl StoreError
                           else Inr (Some existingData,
                             s\<lparr>subscriptions :=
                                 update_where (\<lambda>r. stripe_subscription_id r = subscriptionId)
                                   (refresh_row e stripeSubscription periodEnd)
                                   (subscriptions s)\<rparr>))
                  | None \<Rightarrow>
                      (case toISOString (ss_current_period_end stripeSubscription) of
                         None \<Rightarrow> Inl RangeError
                       | Some periodEnd \<Rightarrow>
                           if db_error e UpsertInsert then Inl StoreError
                           else
                             (let s' = s\<lparr>subscriptions := subscriptions s @
                                        [newSubscription e stripeSubscription periodEnd
                                           subscriptionId uid cust]\<rparr>
                              in Inr (select_single (db_error e UpsertVerify)
                                        (rows_with_id s' subscriptionId), s'))))))"

subsection \<open>The handler\<close>

text \<open>\<^verbatim>\<open>session.customer_details?.email || session.customer_email\<close>.\<close>

definition session_email :: "session \<Rightarrow> string option" where
  "session_email sess = or_else (customer_details_email sess) (customer_email sess)"

text \<open>Lines 151 to 183: the user identifier from \<^verbatim>\<open>client_reference_id\<close>, or from the
  email when the reference is missing or is not shaped like a UUID. \<open>Inl\<close> is the
  response the handler returns at once. The listing of ten users that precedes the
  answer \<^verbatim>\<open>User not found\<close> is a read whose result goes to the log only.\<close>

definition candidate_user :: "env \<Rightarrow> state \<Rightarrow> session \<Rightarrow> response + string" where
  "candidate_user e s sess =
     (let uid = str_of (client_reference_id sess) in
      if uid = [] \<or> \<not> is_uuid uid then
        (if truthy (session_email sess) then
           (let foundUserId =
                  findUserIdByEmail (db_error e FindByEmailFirst) s (str_of (session_email sess))
            in if truthy foundUserId then Inr (str_of foundUserId)
               else Inl (400, UserNotFound))
         else Inl (400, NoEmailToIdentifyUser))
      else Inr uid)"

text \<open>Lines 185 to 214: the identifier must be a row of \<^verbatim>\<open>users\<close>; when it is not,
  the email is tried once more.\<close>

definition validate_user :: "env \<Rightarrow> state \<Rightarrow> session \<Rightarrow> string \<Rightarrow> response + string" where
  "validate_user e s sess uid =
     (case select_single (db_error e ValidateUser) (users_with_id s uid) of
        Some userExists \<Rightarrow> Inr uid
      | None \<Rightarrow>
          if truthy (session_email sess) then
            (let foundUserId =
                   findUserIdByEmail (db_error e FindByEmailRetry) s (str_of (session_email sess))
             in if truthy foundUserId then Inr (str_of foundUserId)
                else Inl (400, UserIdNotValid))
          else Inl (400, UserIdNotValidNoEmail))"

definition resolve_user :: "env \<Rightarrow> state \<Rightarrow> session \<Rightarrow> response + string" where
  "resolve_user e s sess =
     (case candidate_user e s sess of
        Inl resp \<Rightarrow> Inl resp
      | Inr uid \<Rightarrow> validate_user e s sess uid)"

text \<open>Lines 216 to 275, the body of the inner \<^verbatim>\<open>try\<close>: the duplicate check, the
  cancellation of a duplicate, and the upsert. \<open>Inl\<close> is an exception on its way to the
  \<^verbatim>\<open>catch\<close> of line 271; the state comes back in both cases, since the cancellation
  has been requested when \<^verbatim>\<open>cancel\<close> throws.\<close>

definition reconcile_checkout ::
  "env \<Rightarrow> state \<Rightarrow> session \<Rightarrow> string \<Rightarrow> (error + response) \<times> state" where
  "reconcile_checkout e s sess uid =
     (if checkExistingSubscription e s (str_of (customer sess)) then
        (let s' = s\<lparr>cancel_requests := cancel_requests s @ [str_of (subscription sess)]\<rparr>
         in if cancel_throws e (str_of (subscription sess)) then (Inl ProviderError, s')
            else (Inr (200, Blocked), s'))
      else
        (case createSubscription e s (str_of (subscription sess)) uid (str_of (customer sess)) of
           Inl subError \<Rightarrow> (Inl subError, s)
         | Inr (row, s') \<Rightarrow> (Inr (200, Received), s')))"

definition checkout_session_completed :: "env \<Rightarrow> state \<Rightarrow> session \<Rightarrow> response \<times> state" where
  "checkout_session_completed e s sess =
     (if \<not> truthy (subscription sess) then ((400, MissingSubscriptionId), s)
      else if \<not> truthy (customer sess) then ((400, MissingCustomerId), s)
      else
        (case resolve_user e s sess of
           Inl resp \<Rightarrow> (resp, s)
         | Inr uid \<Rightarrow>
             (case reconcile_checkout e s sess uid of
                (Inl err, s') \<Rightarrow> ((200, ReceivedWithWarning), s')
              | (Inr resp, s') \<Rightarrow> (resp, s'))))"

text \<open>\<^verbatim>\<open>customer.subscription.created\<close>: an exception of \<^verbatim>\<open>createSubscription\<close>
  reaches the outer \<^verbatim>\<open>catch\<close>, before the entry is deleted.\<close>

definition subscription_created :: "env \<Rightarrow> state \<Rightarrow> stripe_subscription \<Rightarrow> response \<times> state" where
  "subscription_created e s sub =
     (case checkoutSessionMap s (ss_id sub) of
        Some sessionData \<Rightarrow>
          (case createSubscription e s (ss_id sub) (userId sessionData) (customerId sessionData) of
             Inl err \<Rightarrow> ((400, WebhookHandlerFailed), s)
           | Inr (row, s') \<Rightarrow>
               ((200, Received),
                s'\<lparr>checkoutSessionMap := (checkoutSessionMap s')(ss_id sub := None)\<rparr>))
      | None \<Rightarrow>
          ((200, Received),
           s\<lparr>pendingSubscriptions := (pendingSubscriptions s)(ss_id sub \<mapsto>
                \<lparr>pending_id = ss_id sub, pending_customer = ss_customer sub\<rparr>)\<rparr>))"

text \<open>\<^verbatim>\<open>customer.subscription.updated\<close> and the three events that share its case.
  The values are built before the update is issued, so a period end that does not
  convert throws to the outer \<^verbatim>\<open>catch\<close> and nothing is written. The result of the
  update is not looked at.\<close>

definition subscription_updated :: "env \<Rightarrow> state \<Rightarrow> stripe_subscription \<Rightarrow> response \<times> state" where
  "subscription_updated e s sub =
     (case toISOString (ss_current_period_end sub) of
        None \<Rightarrow> ((400, WebhookHandlerFailed), s)
      | Some periodEnd \<Rightarrow>
          ((200, Received),
           (if db_error e EventUpdate then s
            else s\<lparr>subscriptions :=
                 update_where (\<lambda>r. stripe_subscription_id r = ss_id sub)
                   (\<lambda>r. r\<lparr>status := ss_status sub,
                          cancel_at_period_end := ss_cancel_at_period_end sub,
                          current_period_end := periodEnd,
                          updated_at := clock e 0\<rparr>)
                   (subscriptions s)\<rparr>)))"

text \<open>\<^verbatim>\<open>customer.subscription.deleted\<close>.\<close>

definition subscription_deleted :: "env \<Rightarrow> state \<Rightarrow> stripe_subscription \<Rightarrow> response \<times> state" where
  "subscription_deleted e s sub =
     ((200, Received),
      (if db_error e EventDelete then s
       else s\<lparr>subscriptions :=
            update_where (\<lambda>r. stripe_subscription_id r = ss_id sub)
              (\<lambda>r. r\<lparr>status := ss_status sub,
                     cancel_at_period_end := False,
                     current_period_end := clock e 0,
                     updated_at := clock e 1\<rparr>)
              (subscriptions s)\<rparr>))"

fun handle_event :: "env \<Rightarrow> state \<Rightarrow> event \<Rightarrow> response \<times> state" where
  "handle_event e s (CheckoutSessionCompleted sess) = checkout_session_completed e s sess"
| "handle_event e s (SubscriptionCreated sub) = subscription_created e s sub"
| "handle_event e s (SubscriptionUpdated sub) = subscription_updated e s sub"
| "handle_event e s (SubscriptionPendingUpdateApplied sub) = subscription_updated e s sub"
| "handle_event e s (SubscriptionPendingUpdateExpired sub) = subscription_updated e s sub"
| "handle_event e s (SubscriptionTrialWillEnd sub) = subscription_updated e s sub"
| "handle_event e s (SubscriptionDeleted sub) = subscription_deleted e s sub"
| "handle_event e s (OtherEvent ty) = ((200, Received), s)"

text \<open>\<^verbatim>\<open>POST\<close>: the request is \<open>None\<close> when \<^verbatim>\<open>stripe.webhooks.constructEvent\<close>
  rejects the signature, and the verified event otherwise.\<close>

definition POST :: "env \<Rightarrow> state \<Rightarrow> event option \<Rightarrow> response \<times> state" where
  "POST e s request =
     (case request of
        None \<Rightarrow> ((400, SignatureVerificationFailed), s)
      | Some ev \<Rightarrow> handle_event e s ev)"

text \<open>The state after a sequence of verified events, delivered one after the other.\<close>

fun deliver :: "env \<Rightarrow> state \<Rightarrow> event list \<Rightarrow> state" where
  "deliver e s [] = s"
| "deliver e s (ev # evs) = deliver e (snd (POST e s (Some ev))) evs"

subsection \<open>Predicates used in the properties\<close>

text \<open>The data model's invariant: no two stored rows share a subscription identifier.\<close>

definition unique_subscription_ids :: "state \<Rightarrow> bool" where
  "unique_subscription_ids s = distinct (map stripe_subscription_id (subscriptions s))"

text \<open>An \<^verbatim>\<open>ILIKE\<close> pattern with no wildcard and no escape character.\<close>

definition pattern_chars :: "char set" where
  "pattern_chars = {CHR ''%'', CHR ''*'', CHR ''_'', CHR 0x5C}"

definition literal_pattern :: "string \<Rightarrow> bool" where
  "literal_pattern p = list_all (\<lambda>c. c \<notin> pattern_chars) p"

subsection \<open>Example data\<close>

text \<open>Two users, three subscriptions the provider knows, and the stores and events the
  examples below run the handler on.\<close>

definition ada :: user where
  "ada = \<lparr>u_id = ''11111111-1111-4111-8111-111111111111'', u_email = ''ada@example.com''\<rparr>"

definition pat :: user where
  "pat = \<lparr>u_id = ''22222222-2222-4222-8222-222222222222'', u_email = ''pat.lee@example.com''\<rparr>"

definition sub_1 :: stripe_subscription where
  "sub_1 = \<lparr>ss_id = ''sub_1'', ss_customer = ''cus_1'', ss_status = ''active'',
            ss_cancel_at_period_end = False, ss_current_period_end = Some 1700,
            ss_item_prices = [''price_basic'']\<rparr>"

definition sub_2 :: stripe_subscription where
  "sub_2 = \<lparr>ss_id = ''sub_2'', ss_customer = ''cus_1'', ss_status = ''active'',
            ss_cancel_at_period_end = False, ss_current_period_end = Some 1800,
            ss_item_prices = [''price_basic'']\<rparr>"

definition sub_3 :: stripe_subscription where
  "sub_3 = \<lparr>ss_id = ''sub_3'', ss_customer = ''cus_2'', ss_status = ''trialing'',
            ss_cancel_at_period_end = False, ss_current_period_end = Some 1900,
            ss_item_prices = []\<rparr>"

definition sub_4 :: stripe_subscription where
  "sub_4 = \<lparr>ss_id = ''sub_4'', ss_customer = ''cus_1'', ss_status = ''active'',
            ss_cancel_at_period_end = False, ss_current_period_end = Some 2000,
            ss_item_prices = [''price_basic'']\<rparr>"

definition sub_1_past_due :: stripe_subscription where
  "sub_1_past_due = \<lparr>ss_id = ''sub_1'', ss_customer = ''cus_1'', ss_status = ''past_due'',
            ss_cancel_at_period_end = False, ss_current_period_end = Some 1700,
            ss_item_prices = [''price_basic'']\<rparr>"

definition sub_1_far :: stripe_subscription where
  "sub_1_far = \<lparr>ss_id = ''sub_1'', ss_customer = ''cus_1'', ss_status = ''active'',
            ss_cancel_at_period_end = False, ss_current_period_end = Some 8640000000001,
            ss_item_prices = [''price_basic'']\<rparr>"

definition sub_2_far :: stripe_subscription where
  "sub_2_far = \<lparr>ss_id = ''sub_2'', ss_customer = ''cus_1'', ss_status = ''active'',
            ss_cancel_at_period_end = False, ss_current_period_end = Some 8640000000001,
            ss_item_prices = [''price_basic'']\<rparr>"

definition sub_2_last_day :: stripe_subscription where
  "sub_2_last_day = \<lparr>ss_id = ''sub_2'', ss_customer = ''cus_1'', ss_status = ''active'',
            ss_cancel_at_period_end = False, ss_current_period_end = Some 8640000000000,
            ss_item_prices = [''price_basic'']\<rparr>"

definition sub_2_no_period :: stripe_subscription where
  "sub_2_no_period = \<lparr>ss_id = ''sub_2'', ss_customer = ''cus_1'', ss_status = ''active'',
            ss_cancel_at_period_end = False, ss_current_period_end = None,
            ss_item_prices = [''price_basic'']\<rparr>"

definition sub_1_canceled :: stripe_subscription where
  "sub_1_canceled = \<lparr>ss_id = ''sub_1'', ss_customer = ''cus_1'', ss_status = ''canceled'',
            ss_cancel_at_period_end = True, ss_current_period_end = Some 1700,
            ss_item_prices = [''price_basic'']\<rparr>"

definition provider_ok :: env where
  "provider_ok = \<lparr>retrieve = [''sub_1'' \<mapsto> sub_1, ''sub_2'' \<mapsto> sub_2, ''sub_3'' \<mapsto> sub_3,
                              ''sub_4'' \<mapsto> sub_4],
                  cancel_throws = (\<lambda>i. False),
                  clock = (\<lambda>n. 5000 + int n),
                  db_error = (\<lambda>c. False)\<rparr>"

definition provider_retry :: env where
  "provider_retry = \<lparr>retrieve = [''sub_1'' \<mapsto> sub_1, ''sub_2'' \<mapsto> sub_2, ''sub_3'' \<mapsto> sub_3,
                              ''sub_4'' \<mapsto> sub_4],
                     cancel_throws = (\<lambda>i. False),
                     clock = (\<lambda>n. 9000 + int n),
                     db_error = (\<lambda>c. False)\<rparr>"

definition insert_rejected :: env where
  "insert_rejected = \<lparr>retrieve = [''sub_1'' \<mapsto> sub_1, ''sub_2'' \<mapsto> sub_2, ''sub_3'' \<mapsto> sub_3,
                              ''sub_4'' \<mapsto> sub_4],
                      cancel_throws = (\<lambda>i. False),
                      clock = (\<lambda>n. 5000 + int n),
                      db_error = (\<lambda>c. c = UpsertInsert)\<rparr>"

definition provider_far :: env where
  "provider_far = \<lparr>retrieve = [''sub_1'' \<mapsto> sub_1_far],
                   cancel_throws = (\<lambda>i. False),
                   clock = (\<lambda>n. 5000 + int n),
                   db_error = (\<lambda>c. False)\<rparr>"

definition lookup_down :: env where
  "lookup_down = \<lparr>retrieve = [''sub_1'' \<mapsto> sub_1, ''sub_2'' \<mapsto> sub_2, ''sub_3'' \<mapsto> sub_3,
                              ''sub_4'' \<mapsto> sub_4],
                  cancel_throws = (\<lambda>i. False),
                  clock = (\<lambda>n. 5000 + int n),
                  db_error = (\<lambda>c. c = FindByEmailFirst)\<rparr>"

definition empty_store :: state where
  "empty_store = \<lparr>users = [ada, pat], subscriptions = [], checkoutSessionMap = Map.empty,
                  pendingSubscriptions = Map.empty, cancel_requests = []\<rparr>"

definition row_ada :: subscription_row where
  "row_ada = \<lparr>user_id = ''11111111-1111-4111-8111-111111111111'',
              stripe_customer_id = ''cus_1'', stripe_subscription_id = ''sub_1'',
              status = ''active'', price_id = ''price_basic'', current_period_end = 1700000,
              cancel_at_period_end = False, created_at = 5000, updated_at = 5001\<rparr>"

definition row_ada_old :: subscription_row where
  "row_ada_old = \<lparr>user_id = ''11111111-1111-4111-8111-111111111111'',
              stripe_customer_id = ''cus_1'', stripe_subscription_id = ''sub_0'',
              status = ''trialing'', price_id = ''price_basic'', current_period_end = 1600000,
              cancel_at_period_end = True, created_at = 4000, updated_at = 4001\<rparr>"

definition row_ada_canceled :: subscription_row where
  "row_ada_canceled = \<lparr>user_id = ''11111111-1111-4111-8111-111111111111'',
              stripe_customer_id = ''cus_1'', stripe_subscription_id = ''sub_8'',
              status = ''canceled'', price_id = ''price_basic'', current_period_end = 1500000,
              cancel_at_period_end = False, created_at = 3000, updated_at = 3001\<rparr>"

definition row_pat :: subscription_row where
  "row_pat = \<lparr>user_id = ''22222222-2222-4222-8222-222222222222'',
              stripe_customer_id = ''cus_2'', stripe_subscription_id = ''sub_3'',
              status = ''trialing'', price_id = ''unknown'', current_period_end = 1900000,
              cancel_at_period_end = False, created_at = 4500, updated_at = 4501\<rparr>"

definition row_pat_past_due :: subscription_row where
  "row_pat_past_due = \<lparr>user_id = ''22222222-2222-4222-8222-222222222222'',
              stripe_customer_id = ''cus_5'', stripe_subscription_id = ''sub_9'',
              status = ''past_due'', price_id = ''unknown'', current_period_end = 1400000,
              cancel_at_period_end = False, created_at = 2000, updated_at = 2001\<rparr>"

definition mixed_store :: state where
  "mixed_store = \<lparr>users = [ada, pat],
                  subscriptions = [row_ada_canceled, row_pat, row_pat_past_due, row_ada],
                  checkoutSessionMap = Map.empty, pendingSubscriptions = Map.empty,
                  cancel_requests = []\<rparr>"

definition one_active_store :: state where
  "one_active_store = \<lparr>users = [ada, pat], subscriptions = [row_ada],
                  checkoutSessionMap = Map.empty, pendingSubscriptions = Map.empty,
                  cancel_requests = []\<rparr>"

definition two_active_store :: state where
  "two_active_store = \<lparr>users = [ada, pat], subscriptions = [row_ada_old, row_ada],
                  checkoutSessionMap = Map.empty, pendingSubscriptions = Map.empty,
                  cancel_requests = []\<rparr>"

definition checkout_ada :: session where
  "checkout_ada = \<lparr>client_reference_id = Some ''11111111-1111-4111-8111-111111111111'',
     customer = Some ''cus_1'', subscription = Some ''sub_1'',
     customer_details_email = Some ''ada@example.com'', customer_email = None\<rparr>"

definition checkout_ada_again :: session where
  "checkout_ada_again = \<lparr>client_reference_id = Some ''11111111-1111-4111-8111-111111111111'',
     customer = Some ''cus_1'', subscription = Some ''sub_2'',
     customer_details_email = Some ''ada@example.com'', customer_email = None\<rparr>"

definition checkout_stranger :: session where
  "checkout_stranger = \<lparr>client_reference_id = None,
     customer = Some ''cus_1'', subscription = Some ''sub_2'',
     customer_details_email = Some ''nobody@example.com'', customer_email = None\<rparr>"

definition checkout_pat_lee :: session where
  "checkout_pat_lee = \<lparr>client_reference_id = None,
     customer = Some ''cus_2'', subscription = Some ''sub_3'',
     customer_details_email = None, customer_email = Some ''pat_lee@example.com''\<rparr>"

definition checkout_ada_third :: session where
  "checkout_ada_third = \<lparr>client_reference_id = Some ''11111111-1111-4111-8111-111111111111'',
     customer = Some ''cus_1'', subscription = Some ''sub_4'',
     customer_details_email = Some ''ada@example.com'', customer_email = None\<rparr>"

definition checkout_ada_by_email :: session where
  "checkout_ada_by_email = \<lparr>client_reference_id = None,
     customer = Some ''cus_1'', subscription = Some ''sub_1'',
     customer_details_email = Some ''ada@example.com'', customer_email = None\<rparr>"

definition checkout_eve_upper :: session where
  "checkout_eve_upper = \<lparr>client_reference_id = Some ''AAAAAAAA-AAAA-4AAA-8AAA-AAAAAAAAAAAA'',
     customer = Some ''cus_3'', subscription = Some ''sub_1'',
     customer_details_email = None, customer_email = None\<rparr>"

definition eve :: user where
  "eve = \<lparr>u_id = ''aaaaaaaa-aaaa-4aaa-8aaa-aaaaaaaaaaaa'', u_email = ''eve@example.com''\<rparr>"

definition eve_store :: state where
  "eve_store = \<lparr>users = [ada, eve], subscriptions = [], checkoutSessionMap = Map.empty,
                pendingSubscriptions = Map.empty, cancel_requests = []\<rparr>"

definition checkout_no_subscription :: session where
  "checkout_no_subscription = \<lparr>client_reference_id = Some ''11111111-1111-4111-8111-111111111111'',
     customer = Some ''cus_1'', subscription = None,
     customer_details_email = Some ''ada@example.com'', customer_email = None\<rparr>"

section \<open>Properties\<close>

subsection \<open>Unfolding the model\<close>

lemmas example_defs = ada_def pat_def eve_def sub_1_def sub_2_def sub_3_def sub_4_def
  sub_1_past_due_def sub_1_far_def sub_2_far_def sub_2_last_day_def sub_2_no_period_def
  sub_1_canceled_def provider_ok_def provider_retry_def insert_rejected_def
  provider_far_def lookup_down_def empty_store_def eve_store_def row_ada_def
  row_ada_old_def row_ada_canceled_def row_pat_def row_pat_past_due_def mixed_store_def
  one_active_store_def two_active_store_def checkout_ada_def checkout_ada_again_def
  checkout_ada_third_def checkout_ada_by_email_def checkout_eve_upper_def
  checkout_stranger_def checkout_pat_lee_def checkout_no_subscription_def

lemmas route_defs = POST_def checkout_session_completed_def resolve_user_def
  candidate_user_def validate_user_def reconcile_checkout_def createSubscription_def
  checkExistingSubscription_def findUserIdByEmail_def select_single_def active_rows_def
  rows_with_id_def users_with_id_def session_email_def or_else_def newSubscription_def
  first_price_def refresh_row_def update_where_def ilike_def lower_char_def
  toISOString_def subscription_created_def subscription_updated_def
  subscription_deleted_def

lemma is_uuid_ada: "is_uuid ''11111111-1111-4111-8111-111111111111''"
  by (simp add: is_uuid_def is_hex_def lower_char_def eval_nat_numeral)

lemma is_uuid_eve_upper: "is_uuid ''AAAAAAAA-AAAA-4AAA-8AAA-AAAAAAAAAAAA''"
  by (simp add: is_uuid_def is_hex_def lower_char_def eval_nat_numeral)

lemma is_uuid_refused:
  "\<not> is_uuid [] \<and> \<not> is_uuid ''user_42'' \<and>
   \<not> is_uuid ''11111111-1111-4111-8111-11111111111'' \<and>
   \<not> is_uuid ''11111111-1111-4111-8111-1111111111111'' \<and>
   \<not> is_uuid ''1111111111114111-8111-111111111111'' \<and>
   \<not> is_uuid ''g1111111-1111-4111-8111-111111111111'' \<and>
   \<not> is_uuid ''{11111111-1111-4111-8111-111111111111}''"
  by (simp add: is_uuid_def is_hex_def lower_char_def eval_nat_numeral)

lemma pg_uuid_ada:
  "pg_uuid ''11111111-1111-4111-8111-111111111111'' = Some ''11111111111141118111111111111111''"
  by (simp add: pg_uuid_def skip_hyphen_def is_hex_def lower_char_def eval_nat_numeral)

lemma pg_uuid_pat:
  "pg_uuid ''22222222-2222-4222-8222-222222222222'' = Some ''22222222222242228222222222222222''"
  by (simp add: pg_uuid_def skip_hyphen_def is_hex_def lower_char_def eval_nat_numeral)

lemma pg_uuid_eve:
  "pg_uuid ''aaaaaaaa-aaaa-4aaa-8aaa-aaaaaaaaaaaa'' = Some ''aaaaaaaaaaaa4aaa8aaaaaaaaaaaaaaa''"
  by (simp add: pg_uuid_def skip_hyphen_def is_hex_def lower_char_def eval_nat_numeral)

lemma pg_uuid_eve_upper:
  "pg_uuid ''AAAAAAAA-AAAA-4AAA-8AAA-AAAAAAAAAAAA'' = Some ''aaaaaaaaaaaa4aaa8aaaaaaaaaaaaaaa''"
  by (simp add: pg_uuid_def skip_hyphen_def is_hex_def lower_char_def eval_nat_numeral)

lemma pg_uuid_braces:
  "pg_uuid ''{AAAAAAAAAAAA-4AAA8AAA-AAAAAAAAAAAA}'' = Some ''aaaaaaaaaaaa4aaa8aaaaaaaaaaaaaaa''"
  by (simp add: pg_uuid_def skip_hyphen_def is_hex_def lower_char_def eval_nat_numeral)

lemma pg_uuid_refused:
  "pg_uuid ''aaaaaaaa-aaaa-4aaa-8aaa-aaaaaaaaaaa'' = None \<and>
   pg_uuid ''aaaaaaaaa-aaa-4aaa-8aaa-aaaaaaaaaaaa'' = None \<and> pg_uuid ''ada'' = None"
  by (simp add: pg_uuid_def skip_hyphen_def is_hex_def lower_char_def eval_nat_numeral)

lemmas uuid_examples = is_uuid_ada is_uuid_eve_upper pg_uuid_ada pg_uuid_pat pg_uuid_eve
  pg_uuid_eve_upper

text \<open>A client reference in upper case denotes the uuid of the stored user: the user is
  found, and the reference is passed on as it came.\<close>

lemma upper_case_reference_resolves:
  "resolve_user provider_ok eve_store checkout_eve_upper
     = Inr ''AAAAAAAA-AAAA-4AAA-8AAA-AAAAAAAAAAAA''"
  by (simp add: route_defs example_defs uuid_examples Let_def)

lemma single_row_Some_iff: "single_row xs = Some x \<longleftrightarrow> xs = [x]"
  by (cases xs rule: single_row.cases) auto

lemma single_row_None_iff: "single_row xs = None \<longleftrightarrow> length xs \<noteq> 1"
  by (cases xs rule: single_row.cases) auto

lemma update_where_none: "filter sel rows = [] \<Longrightarrow> update_where sel change rows = rows"
  by (induction rows) (auto simp: update_where_def split: if_splits)

lemma createSubscription_frame:
  "createSubscription e s sid uid cust = Inr (row, s') \<Longrightarrow>
     users s' = users s \<and> checkoutSessionMap s' = checkoutSessionMap s \<and>
     pendingSubscriptions s' = pendingSubscriptions s \<and> cancel_requests s' = cancel_requests s"
  by (auto simp: createSubscription_def Let_def split: if_splits option.splits)

lemma checkout_users: "users (snd (checkout_session_completed e s sess)) = users s"
  by (auto simp: checkout_session_completed_def reconcile_checkout_def Let_def
      dest: createSubscription_frame split: sum.splits prod.splits if_splits)

lemma created_users: "users (snd (subscription_created e s sub)) = users s"
  by (auto simp: subscription_created_def dest: createSubscription_frame
      split: option.splits sum.splits prod.splits)

lemma updated_users: "users (snd (subscription_updated e s sub)) = users s"
  by (simp add: subscription_updated_def split: option.splits)

lemma truthy_str_of: "truthy x \<Longrightarrow> str_of x \<noteq> []"
  by (cases x) auto

lemma findUserIdByEmail_users:
  "users s' = users s \<Longrightarrow> findUserIdByEmail failed s' email = findUserIdByEmail failed s email"
  by (simp add: findUserIdByEmail_def)

lemma users_with_id_users: "users s' = users s \<Longrightarrow> users_with_id s' uid = users_with_id s uid"
  by (simp add: users_with_id_def split: option.splits)

lemma resolve_user_users:
  assumes "users s' = users s"
  shows "resolve_user e s' sess = resolve_user e s sess"
proof -
  have "candidate_user e s' sess = candidate_user e s sess"
    by (simp add: candidate_user_def Let_def findUserIdByEmail_users [OF assms])
  moreover have "validate_user e s' sess uid = validate_user e s sess uid" for uid
    by (simp add: validate_user_def Let_def users_with_id_users [OF assms]
        findUserIdByEmail_users [OF assms] split: option.splits)
  ultimately show ?thesis
    by (simp add: resolve_user_def split: sum.splits)
qed

lemma resolve_user_nonempty:
  assumes "resolve_user e s sess = Inr uid"
  shows "uid \<noteq> []"
proof (cases "candidate_user e s sess")
  case (Inl resp)
  with assms show ?thesis by (simp add: resolve_user_def)
next
  case (Inr c)
  then have c: "c \<noteq> []"
    by (auto simp: candidate_user_def Let_def truthy_str_of split: if_splits)
  from Inr assms have "validate_user e s sess c = Inr uid"
    by (simp add: resolve_user_def)
  with c show ?thesis
    by (auto simp: validate_user_def Let_def truthy_str_of split: option.splits if_splits)
qed

lemma checkout_keeps_maps:
  "checkoutSessionMap (snd (checkout_session_completed e s sess)) = checkoutSessionMap s \<and>
   pendingSubscriptions (snd (checkout_session_completed e s sess)) = pendingSubscriptions s"
  by (auto simp: checkout_session_completed_def reconcile_checkout_def Let_def
      dest: createSubscription_frame split: sum.splits prod.splits if_splits)


subsection \<open>No event adds to \<^verbatim>\<open>checkoutSessionMap\<close>\<close>

text \<open>The map is created empty and the handler has no \<^verbatim>\<open>checkoutSessionMap.set\<close>: a
  key that is absent stays absent, whatever the request.\<close>

lemma checkoutSessionMap_never_set:
  assumes "checkoutSessionMap s k = None"
  shows "checkoutSessionMap (snd (POST e s request)) k = None"
proof (cases request)
  case None
  with assms show ?thesis by (simp add: POST_def)
next
  case (Some ev)
  have cre: "checkoutSessionMap (snd (subscription_created e s sub)) k = None" for sub
    using assms
    by (auto simp: subscription_created_def dest: createSubscription_frame
        split: option.splits sum.splits prod.splits)
  have upd: "checkoutSessionMap (snd (subscription_updated e s sub)) k = None" for sub
    using assms by (simp add: subscription_updated_def split: option.splits)
  from Some assms cre upd show ?thesis
    by (cases ev) (simp_all add: POST_def checkout_keeps_maps subscription_deleted_def)
qed

subsection \<open>Subscription identifiers stay unique\<close>

text \<open>The handler inserts a row only when \<^verbatim>\<open>.single()\<close> found none, so a table
  without duplicates stays without duplicates, whatever the request.\<close>

lemma filter_key_distinct:
  "distinct (map f xs) \<Longrightarrow> length (filter (\<lambda>x. f x = k) xs) \<le> 1"
proof (induction xs)
  case Nil
  then show ?case by simp
next
  case (Cons x xs)
  show ?case
  proof (cases "f x = k")
    case True
    with Cons.prems have "k \<notin> f ` set xs" by auto
    then have "filter (\<lambda>x. f x = k) xs = []"
      by (auto simp: filter_empty_conv)
    with True show ?thesis by simp
  next
    case False
    with Cons show ?thesis by simp
  qed
qed

lemma update_where_keys:
  "(\<And>r. f (change r) = f r) \<Longrightarrow> map f (update_where sel change rows) = map f rows"
  by (induction rows) (auto simp: update_where_def)

lemma createSubscription_unique:
  assumes "unique_subscription_ids s"
    and "createSubscription e s sid uid cust = Inr (row, s')"
  shows "unique_subscription_ids s'"
proof -
  have le: "length (rows_with_id s sid) \<le> 1"
    using assms(1) filter_key_distinct [of stripe_subscription_id "subscriptions s" sid]
    by (simp add: unique_subscription_ids_def rows_with_id_def)
  show ?thesis
  proof (cases "rows_with_id s sid")
    case Nil
    then have "sid \<notin> stripe_subscription_id ` set (subscriptions s)"
      by (auto simp: rows_with_id_def filter_empty_conv)
    with Nil assms show ?thesis
      by (auto simp: createSubscription_def Let_def unique_subscription_ids_def
          newSubscription_def split: if_splits option.splits)
  next
    case (Cons x rest)
    with le have "rows_with_id s sid = [x]" by simp
    with assms show ?thesis
      by (auto simp: createSubscription_def Let_def unique_subscription_ids_def
          update_where_keys refresh_row_def split: if_splits option.splits)
  qed
qed

lemma POST_unique:
  assumes "unique_subscription_ids s"
  shows "unique_subscription_ids (snd (POST e s request))"
proof (cases request)
  case None
  with assms show ?thesis by (simp add: POST_def)
next
  case (Some ev)
  have upd: "unique_subscription_ids (snd (subscription_updated e s sub))" for sub
    using assms
    by (simp add: subscription_updated_def unique_subscription_ids_def update_where_keys
        split: option.splits)
  have del: "unique_subscription_ids (snd (subscription_deleted e s sub))" for sub
    using assms by (simp add: subscription_deleted_def unique_subscription_ids_def update_where_keys)
  have cre: "unique_subscription_ids (snd (subscription_created e s sub))" for sub
    using assms createSubscription_unique [OF assms]
    by (auto simp: subscription_created_def unique_subscription_ids_def
        split: option.splits sum.splits)
  have chk: "unique_subscription_ids (snd (checkout_session_completed e s sess))" for sess
    using assms createSubscription_unique [OF assms]
    by (auto simp: checkout_session_completed_def reconcile_checkout_def Let_def
        unique_subscription_ids_def split: sum.splits prod.splits if_splits)
  from Some assms upd del cre chk show ?thesis
    by (cases ev) (simp_all add: POST_def)
qed

subsection \<open>Patterns without wildcards\<close>

text \<open>On an email with no \<^verbatim>\<open>%\<close>, \<^verbatim>\<open>*\<close>, \<^verbatim>\<open>_\<close> or backslash the lookup
  is the comparison of the two strings with ASCII letters folded.\<close>

lemma like_match_literal:
  "literal_pattern p \<Longrightarrow> like_match p t \<longleftrightarrow> p = t"
proof (induction p t rule: like_match.induct)
  case 1
  then show ?case by simp
next
  case (2 c cs)
  then show ?case by simp
next
  case (3 p ps)
  then show ?case by (simp add: literal_pattern_def pattern_chars_def)
next
  case (4 p ps c cs)
  then show ?case by (simp add: literal_pattern_def pattern_chars_def)
qed

lemma lower_char_special: "lower_char c \<in> pattern_chars \<longleftrightarrow> c \<in> pattern_chars"
  by (auto simp: lower_char_def pattern_chars_def split: option.splits if_splits)

lemma literal_pattern_lower:
  "literal_pattern p \<Longrightarrow> literal_pattern (map lower_char p)"
  by (induction p) (simp_all add: literal_pattern_def lower_char_special)

lemma ilike_literal:
  assumes "literal_pattern email"
  shows "ilike email text \<longleftrightarrow> map lower_char email = map lower_char text"
  unfolding ilike_def
  by (rule like_match_literal) (rule literal_pattern_lower [OF assms])

subsection \<open>Identity resolution through the email\<close>

text \<open>When the client reference is missing or not shaped like a UUID, the outcome is
  decided by what \<^verbatim>\<open>findUserIdByEmail\<close> returns: no user, and the session is
  answered 400 with the state untouched; a user that is a row of \<^verbatim>\<open>users\<close>, and
  that user's identifier is the one resolved. For an email without pattern characters
  the lookup is the case-insensitive comparison.\<close>

lemma checkout_identity_unresolved:
  assumes "truthy (subscription sess)" and "truthy (customer sess)"
    and "str_of (client_reference_id sess) = [] \<or> \<not> is_uuid (str_of (client_reference_id sess))"
    and "\<not> truthy (session_email sess) \<or>
         findUserIdByEmail (db_error e FindByEmailFirst) s (str_of (session_email sess)) = None"
  shows "POST e s (Some (CheckoutSessionCompleted sess)) =
           ((400, if truthy (session_email sess) then UserNotFound else NoEmailToIdentifyUser), s)"
  using assms
  by (auto simp: POST_def checkout_session_completed_def resolve_user_def candidate_user_def
      Let_def)

lemma checkout_identity_by_email:
  assumes "str_of (client_reference_id sess) = [] \<or> \<not> is_uuid (str_of (client_reference_id sess))"
    and "truthy (session_email sess)"
    and "findUserIdByEmail (db_error e FindByEmailFirst) s (str_of (session_email sess)) = Some found"
    and "found \<noteq> []"
    and "users_with_id s found = [u]" and "\<not> db_error e ValidateUser"
  shows "resolve_user e s sess = Inr found"
  using assms
  by (auto simp: resolve_user_def candidate_user_def validate_user_def Let_def select_single_def)

lemma findUserIdByEmail_literal:
  assumes "literal_pattern email"
  shows "findUserIdByEmail failed s email =
     (case select_single failed
        (filter (\<lambda>u. map lower_char email = map lower_char (u_email u)) (users s)) of
        None \<Rightarrow> None
      | Some u \<Rightarrow> Some (u_id u))"
  by (simp add: findUserIdByEmail_def ilike_literal [OF assms])

subsection \<open>A checkout event delivered twice\<close>

text \<open>The first delivery, for a user that resolves, a customer the duplicate check lets
  through and a period end that converts, appends one row. When the provider's status
  is active or trialing and the customer had no such row, that row is the one the
  duplicate check finds on the second delivery: the handler requests the cancellation
  of the event's own subscription and writes nothing.\<close>

lemma checkout_first_delivery:
  assumes ids: "truthy (subscription sess)" "truthy (customer sess)"
    and user: "resolve_user e s sess = Inr uid" "users_with_id s uid = [u]"
    and fresh: "rows_with_id s (str_of (subscription sess)) = []"
    and nodup: "\<not> checkExistingSubscription e s (str_of (customer sess))"
    and provider: "retrieve e (str_of (subscription sess)) = Some stripeSubscription"
      "toISOString (ss_current_period_end stripeSubscription) = Some periodEnd"
    and store: "\<not> db_error e UpsertUser" "\<not> db_error e UpsertCheck" "\<not> db_error e UpsertInsert"
  shows "POST e s (Some (CheckoutSessionCompleted sess)) =
     ((200, Received),
      s\<lparr>subscriptions := subscriptions s @
         [newSubscription e stripeSubscription periodEnd (str_of (subscription sess)) uid
            (str_of (customer sess))]\<rparr>)"
proof -
  have "uid \<noteq> []"
    using user(1) by (rule resolve_user_nonempty)
  moreover have "str_of (subscription sess) \<noteq> []" "str_of (customer sess) \<noteq> []"
    using ids by (simp_all add: truthy_str_of)
  ultimately have "createSubscription e s (str_of (subscription sess)) uid (str_of (customer sess)) =
      Inr (select_single (db_error e UpsertVerify)
             (rows_with_id (s\<lparr>subscriptions := subscriptions s @
                [newSubscription e stripeSubscription periodEnd (str_of (subscription sess)) uid
                  (str_of (customer sess))]\<rparr>) (str_of (subscription sess))),
           s\<lparr>subscriptions := subscriptions s @
              [newSubscription e stripeSubscription periodEnd (str_of (subscription sess)) uid
                 (str_of (customer sess))]\<rparr>)"
    using user(2) fresh provider store
    by (simp add: createSubscription_def select_single_def Let_def)
  then show ?thesis
    using ids user(1) nodup
    by (simp add: POST_def checkout_session_completed_def reconcile_checkout_def)
qed

lemma checkout_redelivery_blocked:
  assumes ids: "truthy (subscription sess)" "truthy (customer sess)"
    and user: "resolve_user e s sess = Inr uid" "users_with_id s uid = [u]"
    and fresh: "rows_with_id s (str_of (subscription sess)) = []"
    and none: "active_rows s (str_of (customer sess)) = []"
    and provider: "retrieve e (str_of (subscription sess)) = Some stripeSubscription"
      "toISOString (ss_current_period_end stripeSubscription) = Some periodEnd"
    and live: "ss_status stripeSubscription = ''active'' \<or> ss_status stripeSubscription = ''trialing''"
    and store: "\<not> db_error e UpsertUser" "\<not> db_error e UpsertCheck" "\<not> db_error e UpsertInsert"
    and again: "resolve_user e' s sess = Inr uid'" "\<not> db_error e' CheckExisting"
    and first: "s' = snd (POST e s (Some (CheckoutSessionCompleted sess)))"
  shows "length (subscriptions s') = Suc (length (subscriptions s)) \<and>
     POST e' s' (Some (CheckoutSessionCompleted sess)) =
       ((200, if cancel_throws e' (str_of (subscription sess)) then ReceivedWithWarning else Blocked),
        s'\<lparr>cancel_requests := cancel_requests s @ [str_of (subscription sess)]\<rparr>)"
proof -
  let ?row = "newSubscription e stripeSubscription periodEnd (str_of (subscription sess)) uid
                (str_of (customer sess))"
  have nodup: "\<not> checkExistingSubscription e s (str_of (customer sess))"
    using none by (simp add: checkExistingSubscription_def select_single_def)
  have s': "s' = s\<lparr>subscriptions := subscriptions s @ [?row]\<rparr>"
    using checkout_first_delivery [OF ids user fresh nodup provider store] first by simp
  have "active_rows s' (str_of (customer sess)) = [?row]"
    using none live by (auto simp: s' active_rows_def newSubscription_def)
  then have dup: "checkExistingSubscription e' s' (str_of (customer sess))"
    using again(2) by (simp add: checkExistingSubscription_def select_single_def)
  have "resolve_user e' s' sess = Inr uid'"
    using again(1) resolve_user_users [of s' s e' sess] by (simp add: s')
  with dup ids show ?thesis
    by (simp add: POST_def checkout_session_completed_def reconcile_checkout_def Let_def s')
qed

subsection \<open>A duplicate that is blocked\<close>

text \<open>With the user resolved, the query of the duplicate check answering, and exactly
  one active or trialing row stored for the customer, the handler writes no row,
  requests the cancellation of the session's subscription and answers
  \<^verbatim>\<open>blocked\<close>, or 200 with a warning when the cancel call throws.\<close>

lemma checkout_single_active_blocked:
  assumes "truthy (subscription sess)" and "truthy (customer sess)"
    and "resolve_user e s sess = Inr uid"
    and "\<not> db_error e CheckExisting"
    and "filter (\<lambda>r. stripe_customer_id r = str_of (customer sess) \<and>
                      (status r = ''active'' \<or> status r = ''trialing''))
           (subscriptions s) = [existing]"
  shows "POST e s (Some (CheckoutSessionCompleted sess)) =
     ((200, if cancel_throws e (str_of (subscription sess)) then ReceivedWithWarning else Blocked),
      s\<lparr>cancel_requests := cancel_requests s @ [str_of (subscription sess)]\<rparr>)"
proof -
  have "active_rows s (str_of (customer sess)) = [existing]"
    using assms(5) by (simp add: active_rows_def)
  then have "checkExistingSubscription e s (str_of (customer sess))"
    using assms(4) by (simp add: checkExistingSubscription_def select_single_def)
  then show ?thesis
    using assms(1-3)
    by (simp add: POST_def checkout_session_completed_def reconcile_checkout_def Let_def)
qed

subsection \<open>Created before checkout\<close>

text \<open>A \<^verbatim>\<open>customer.subscription.created\<close> event for a subscription that has no row
  and no entry in \<^verbatim>\<open>checkoutSessionMap\<close> writes no row. When checkout completion for
  the same subscription follows, with a user that resolves to a row of \<^verbatim>\<open>users\<close>, a
  duplicate check that answers false, a period end that converts and the store
  accepting the calls, exactly one row has the identifier, and it carries the resolved
  user and the session's customer.\<close>

lemma created_then_checkout_one_record:
  assumes start: "checkoutSessionMap s (ss_id sub) = None" "rows_with_id s (ss_id sub) = []"
    and same: "subscription sess = Some (ss_id sub)" "ss_id sub \<noteq> []"
    and cust: "truthy (customer sess)"
    and user: "resolve_user e2 s sess = Inr uid" "users_with_id s uid = [u]"
    and provider: "retrieve e2 (ss_id sub) = Some stripeSubscription"
      "toISOString (ss_current_period_end stripeSubscription) = Some periodEnd"
    and nodup: "\<not> checkExistingSubscription e2 s (str_of (customer sess))"
    and store: "\<not> db_error e2 UpsertUser" "\<not> db_error e2 UpsertCheck" "\<not> db_error e2 UpsertInsert"
  shows "deliver e2 s [SubscriptionCreated sub, CheckoutSessionCompleted sess] =
     s\<lparr>pendingSubscriptions := (pendingSubscriptions s)(ss_id sub \<mapsto>
          \<lparr>pending_id = ss_id sub, pending_customer = ss_customer sub\<rparr>),
       subscriptions := subscriptions s @
          [newSubscription e2 stripeSubscription periodEnd (ss_id sub) uid
             (str_of (customer sess))]\<rparr>"
proof -
  define s1 where "s1 = s\<lparr>pendingSubscriptions := (pendingSubscriptions s)(ss_id sub \<mapsto>
                \<lparr>pending_id = ss_id sub, pending_customer = ss_customer sub\<rparr>)\<rparr>"
  have created: "POST e2 s (Some (SubscriptionCreated sub)) = ((200, Received), s1)"
    using start(1) by (simp add: POST_def subscription_created_def s1_def)
  have ids: "truthy (subscription sess)" "str_of (subscription sess) = ss_id sub"
    using same by simp_all
  have "POST e2 s1 (Some (CheckoutSessionCompleted sess)) =
      ((200, Received),
       s1\<lparr>subscriptions := subscriptions s1 @
          [newSubscription e2 stripeSubscription periodEnd (str_of (subscription sess)) uid
             (str_of (customer sess))]\<rparr>)"
  proof (rule checkout_first_delivery [OF ids(1) cust _ _ _ _ _ provider(2) store])
    show "resolve_user e2 s1 sess = Inr uid"
      using user(1) resolve_user_users [of s1 s e2 sess] by (simp add: s1_def)
    show "users_with_id s1 uid = [u]"
      using user(2) users_with_id_users [of s1 s uid] by (simp add: s1_def)
    show "rows_with_id s1 (str_of (subscription sess)) = []"
      using start(2) ids(2) by (simp add: rows_with_id_def s1_def)
    show "\<not> checkExistingSubscription e2 s1 (str_of (customer sess))"
      using nodup by (simp add: checkExistingSubscription_def active_rows_def s1_def)
    show "retrieve e2 (str_of (subscription sess)) = Some stripeSubscription"
      using provider(1) ids(2) by simp
  qed
  then show ?thesis
    by (simp add: created ids(2) s1_def)
qed

subsection \<open>The duplicate check\<close>

text \<open>
  Claim C10. \<^verbatim>\<open>checkExistingSubscription\<close> answers true exactly when the query
  comes back without an error and, among the stored rows, exactly one has the
  customer's identifier and the status active or trialing. Rows of other customers and
  rows with another status do not count. With no such row, and with two or more of
  them, \<^verbatim>\<open>.single()\<close> yields no data and the answer is false.
\<close>

theorem checkExistingSubscription_exactly_one:
  "checkExistingSubscription e s cust \<longleftrightarrow>
     \<not> db_error e CheckExisting \<and>
     length (filter (\<lambda>r. stripe_customer_id r = cust \<and>
                          (status r = ''active'' \<or> status r = ''trialing''))
               (subscriptions s)) = 1"
proof -
  have rows: "active_rows s cust =
      filter (\<lambda>r. stripe_customer_id r = cust \<and> (status r = ''active'' \<or> status r = ''trialing''))
        (subscriptions s)"
    by (simp add: active_rows_def)
  show ?thesis
    unfolding rows [symmetric]
    by (cases "active_rows s cust" rule: single_row.cases)
       (simp_all add: checkExistingSubscription_def select_single_def)
qed

theorem checkExistingSubscription_exactly_one_witness:
  "subscriptions mixed_store = [row_ada_canceled, row_pat, row_pat_past_due, row_ada] \<and>
   stripe_customer_id row_ada_canceled = ''cus_1'' \<and> status row_ada_canceled = ''canceled'' \<and>
   stripe_customer_id row_pat = ''cus_2'' \<and> status row_pat = ''trialing'' \<and>
   stripe_customer_id row_pat_past_due = ''cus_5'' \<and> status row_pat_past_due = ''past_due'' \<and>
   stripe_customer_id row_ada = ''cus_1'' \<and> status row_ada = ''active'' \<and>
   checkExistingSubscription provider_ok mixed_store ''cus_1'' \<and>
   checkExistingSubscription provider_ok mixed_store ''cus_2'' \<and>
   \<not> checkExistingSubscription provider_ok mixed_store ''cus_5'' \<and>
   \<not> checkExistingSubscription provider_ok mixed_store ''cus_7'' \<and>
   \<not> checkExistingSubscription provider_ok empty_store ''cus_1'' \<and>
   subscriptions two_active_store = [row_ada_old, row_ada] \<and>
   stripe_customer_id row_ada_old = ''cus_1'' \<and> status row_ada_old = ''trialing'' \<and>
   \<not> checkExistingSubscription provider_ok two_active_store ''cus_1''"
  using checkExistingSubscription_exactly_one [of provider_ok mixed_store "''cus_1''"]
    checkExistingSubscription_exactly_one [of provider_ok mixed_store "''cus_2''"]
    checkExistingSubscription_exactly_one [of provider_ok mixed_store "''cus_5''"]
    checkExistingSubscription_exactly_one [of provider_ok mixed_store "''cus_7''"]
    checkExistingSubscription_exactly_one [of provider_ok empty_store "''cus_1''"]
    checkExistingSubscription_exactly_one [of provider_ok two_active_store "''cus_1''"]
  by (simp add: example_defs)

subsection \<open>The users table\<close>

text \<open>
  Claim C9. Whatever the request, the \<^verbatim>\<open>users\<close> table after \<^verbatim>\<open>POST\<close> is the
  table before it, and the same holds for \<^verbatim>\<open>createSubscription\<close> when it returns:
  the handler only reads users.
\<close>

theorem users_table_read_only:
  "users (snd (POST e s request)) = users s \<and>
   (case createSubscription e s subscriptionId uid cust of
      Inl err \<Rightarrow> True
    | Inr (row, s') \<Rightarrow> users s' = users s)"
proof
  show "users (snd (POST e s request)) = users s"
  proof (cases request)
    case None
    then show ?thesis by (simp add: POST_def)
  next
    case (Some ev)
    then show ?thesis
      by (cases ev)
        (simp_all add: POST_def checkout_users created_users updated_users
          subscription_deleted_def)
  qed
next
  show "case createSubscription e s subscriptionId uid cust of
      Inl err \<Rightarrow> True
    | Inr (row, s') \<Rightarrow> users s' = users s"
    by (auto split: sum.splits dest: createSubscription_frame)
qed

theorem users_table_read_only_witness:
  "users (snd (POST provider_ok empty_store (Some (CheckoutSessionCompleted checkout_ada))))
     = [ada, pat] \<and>
   subscriptions (snd (POST provider_ok empty_store (Some (CheckoutSessionCompleted checkout_ada))))
     = [row_ada]"
  using users_table_read_only [of provider_ok empty_store
      "Some (CheckoutSessionCompleted checkout_ada)" "''sub_1''" "''x''" "''cus_1''"]
  by (simp add: route_defs example_defs uuid_examples Let_def)

subsection \<open>Events about a stored subscription\<close>

text \<open>
  Claim C8, as stated, fails: an update event whose period end does not convert to a
  date (a value the \<^verbatim>\<open>Date\<close> range does not hold, or a missing field) throws while the
  values of the update are built, and the outer \<^verbatim>\<open>catch\<close> answers 400, although no
  stored row has the event's subscription identifier.
\<close>

theorem update_event_invalid_period_end:
  "filter (\<lambda>r. stripe_subscription_id r = ss_id sub_2_far) (subscriptions one_active_store) = [] \<and>
   ss_current_period_end sub_2_far = Some 8640000000001 \<and>
   POST provider_ok one_active_store (Some (SubscriptionUpdated sub_2_far))
     = ((400, WebhookHandlerFailed), one_active_store) \<and>
   ss_current_period_end sub_2_no_period = None \<and>
   POST provider_ok one_active_store (Some (SubscriptionTrialWillEnd sub_2_no_period))
     = ((400, WebhookHandlerFailed), one_active_store)"
  by (simp add: route_defs example_defs)

text \<open>
  Claim C8, amended. For \<^verbatim>\<open>customer.subscription.updated\<close>,
  \<^verbatim>\<open>pending_update_applied\<close>, \<^verbatim>\<open>pending_update_expired\<close> and \<^verbatim>\<open>trial_will_end\<close>:
  when no stored row has the event's subscription identifier, the state after the
  request is the state before it, so no row is created; and when moreover the event's
  period end, in milliseconds, lies within 8.64e15 of the epoch, the handler answers
  200 \<^verbatim>\<open>{received: true}\<close>.
\<close>

theorem update_events_unknown_id_noop:
  assumes "ev \<in> {SubscriptionUpdated sub, SubscriptionPendingUpdateApplied sub,
                  SubscriptionPendingUpdateExpired sub, SubscriptionTrialWillEnd sub}"
    and "filter (\<lambda>r. stripe_subscription_id r = ss_id sub) (subscriptions s) = []"
  shows "snd (POST e s (Some ev)) = s \<and>
     (\<forall>n. ss_current_period_end sub = Some n \<and>
           - 8640000000000000 \<le> n * 1000 \<and> n * 1000 \<le> 8640000000000000 \<longrightarrow>
        POST e s (Some ev) = ((200, Received), s))"
  using assms
  by (auto simp: POST_def subscription_updated_def toISOString_def update_where_none
      split: option.splits)

theorem update_events_unknown_id_noop_witness:
  "filter (\<lambda>r. stripe_subscription_id r = ss_id sub_2) (subscriptions one_active_store) = [] \<and>
   ss_id sub_2_last_day = ss_id sub_2 \<and> ss_id sub_2_far = ss_id sub_2 \<and>
   ss_current_period_end sub_2 = Some 1800 \<and>
   POST provider_ok one_active_store (Some (SubscriptionUpdated sub_2))
     = ((200, Received), one_active_store) \<and>
   ss_current_period_end sub_2_last_day = Some 8640000000000 \<and>
   POST provider_ok one_active_store (Some (SubscriptionTrialWillEnd sub_2_last_day))
     = ((200, Received), one_active_store) \<and>
   snd (POST provider_ok one_active_store (Some (SubscriptionPendingUpdateApplied sub_2_far)))
     = one_active_store"
proof -
  have none: "filter (\<lambda>r. stripe_subscription_id r = ss_id sub_2) (subscriptions one_active_store) = []"
    and ids: "ss_id sub_2_last_day = ss_id sub_2" "ss_id sub_2_far = ss_id sub_2"
    by (simp_all add: example_defs)
  show ?thesis
    using none ids
      update_events_unknown_id_noop [of "SubscriptionUpdated sub_2" sub_2 one_active_store provider_ok]
      update_events_unknown_id_noop [of "SubscriptionTrialWillEnd sub_2_last_day" sub_2_last_day
        one_active_store provider_ok]
      update_events_unknown_id_noop [of "SubscriptionPendingUpdateApplied sub_2_far" sub_2_far
        one_active_store provider_ok]
    by (simp add: example_defs)
qed

text \<open>
  Claim C7. \<^verbatim>\<open>customer.subscription.deleted\<close> is always acknowledged with 200 and
  touches neither the users nor the provider. When the store accepts the update, every
  row with the event's subscription identifier gets the event's status, the
  cancel-at-period-end flag false whatever it was, the period end set to the first
  clock reading and the updated timestamp to the second; its other columns, and every
  other row, stay as they were. When no row has the identifier nothing is written.
\<close>

theorem subscription_deleted_postcondition:
  "fst (POST e s (Some (SubscriptionDeleted sub))) = (200, Received) \<and>
   users (snd (POST e s (Some (SubscriptionDeleted sub)))) = users s \<and>
   cancel_requests (snd (POST e s (Some (SubscriptionDeleted sub)))) = cancel_requests s \<and>
   length (subscriptions (snd (POST e s (Some (SubscriptionDeleted sub)))))
     = length (subscriptions s) \<and>
   (\<not> db_error e EventDelete \<longrightarrow>
     (\<forall>i < length (subscriptions s).
        subscriptions (snd (POST e s (Some (SubscriptionDeleted sub)))) ! i =
          (if stripe_subscription_id (subscriptions s ! i) = ss_id sub
           then (subscriptions s ! i)\<lparr>status := ss_status sub,
                  cancel_at_period_end := False,
                  current_period_end := clock e 0,
                  updated_at := clock e 1\<rparr>
           else subscriptions s ! i))) \<and>
   (rows_with_id s (ss_id sub) = [] \<longrightarrow>
      POST e s (Some (SubscriptionDeleted sub)) = ((200, Received), s))"
  by (auto simp: POST_def subscription_deleted_def update_where_def rows_with_id_def
      update_where_none [unfolded update_where_def])

theorem subscription_deleted_postcondition_witness:
  "\<not> db_error provider_retry EventDelete \<and>
   cancel_at_period_end (subscriptions two_active_store ! 0) \<and>
   POST provider_retry two_active_store
      (Some (SubscriptionDeleted (sub_1_canceled\<lparr>ss_id := ''sub_0''\<rparr>))) =
     ((200, Received),
      two_active_store\<lparr>subscriptions :=
        [row_ada_old\<lparr>status := ''canceled'', cancel_at_period_end := False,
           current_period_end := 9000, updated_at := 9001\<rparr>, row_ada]\<rparr>) \<and>
   rows_with_id empty_store ''sub_1'' = [] \<and>
   POST provider_retry empty_store (Some (SubscriptionDeleted sub_1_canceled))
     = ((200, Received), empty_store)"
  using subscription_deleted_postcondition [of provider_retry two_active_store
      "sub_1_canceled\<lparr>ss_id := ''sub_0''\<rparr>"]
    subscription_deleted_postcondition [of provider_retry empty_store sub_1_canceled]
  by (simp add: route_defs example_defs)

subsection \<open>The upsert\<close>

text \<open>
  Claim C6. On a table that holds at most one row for the subscription identifier,
  whenever \<^verbatim>\<open>createSubscription\<close> returns, the provider has answered with a period
  end that converts to a date, and: when a row is stored, the function returns that row
  as it was read, and in the table only the status, the period end, the
  cancel-at-period-end flag and the updated timestamp of the row with that identifier
  are changed, to the provider's values and the clock: user, customer, price and
  creation time stay, and so does every other row. When none is stored it appends one
  row with every column filled in, the price being \<^verbatim>\<open>'unknown'\<close> when the provider
  lists no item. The table grows only in the second case. The function does return
  when its parameters are present, the user is a row of \<^verbatim>\<open>users\<close>, the provider
  answers with such a period end and the store accepts the calls; when it throws it has
  written nothing.
\<close>

theorem createSubscription_upsert_frame:
  assumes unique:
    "length (filter (\<lambda>r. stripe_subscription_id r = subscriptionId) (subscriptions s)) \<le> 1"
  shows
   "(\<forall>res s'. createSubscription e s subscriptionId uid cust = Inr (res, s') \<longrightarrow>
      users s' = users s \<and> checkoutSessionMap s' = checkoutSessionMap s \<and>
      pendingSubscriptions s' = pendingSubscriptions s \<and>
      cancel_requests s' = cancel_requests s \<and>
      (\<exists>stripeSubscription n.
         retrieve e subscriptionId = Some stripeSubscription \<and>
         ss_current_period_end stripeSubscription = Some n \<and>
         - 8640000000000000 \<le> n * 1000 \<and> n * 1000 \<le> 8640000000000000 \<and>
         (\<forall>existingData.
            filter (\<lambda>r. stripe_subscription_id r = subscriptionId) (subscriptions s)
              = [existingData] \<longrightarrow>
            res = Some existingData \<and>
            length (subscriptions s') = length (subscriptions s) \<and>
            (\<forall>i < length (subscriptions s).
               if stripe_subscription_id (subscriptions s ! i) = subscriptionId
               then subscriptions s' ! i =
                      (subscriptions s ! i)\<lparr>status := ss_status stripeSubscription,
                         current_period_end := n * 1000,
                         cancel_at_period_end := ss_cancel_at_period_end stripeSubscription,
                         updated_at := clock e 0\<rparr> \<and>
                    user_id (subscriptions s' ! i) = user_id (subscriptions s ! i) \<and>
                    stripe_customer_id (subscriptions s' ! i)
                      = stripe_customer_id (subscriptions s ! i) \<and>
                    stripe_subscription_id (subscriptions s' ! i) = subscriptionId \<and>
                    price_id (subscriptions s' ! i) = price_id (subscriptions s ! i) \<and>
                    created_at (subscriptions s' ! i) = created_at (subscriptions s ! i)
               else subscriptions s' ! i = subscriptions s ! i)) \<and>
         (filter (\<lambda>r. stripe_subscription_id r = subscriptionId) (subscriptions s) = [] \<longrightarrow>
            subscriptions s' = subscriptions s @
              [\<lparr>user_id = uid, stripe_customer_id = cust,
                stripe_subscription_id = subscriptionId,
                status = ss_status stripeSubscription,
                price_id = (case ss_item_prices stripeSubscription of
                              [] \<Rightarrow> ''unknown''
                            | p # ps \<Rightarrow> if p = [] then ''unknown'' else p),
                current_period_end = n * 1000,
                cancel_at_period_end = ss_cancel_at_period_end stripeSubscription,
                created_at = clock e 0, updated_at = clock e 1\<rparr>])) \<and>
      (length (subscriptions s') \<noteq> length (subscriptions s) \<longrightarrow>
         filter (\<lambda>r. stripe_subscription_id r = subscriptionId) (subscriptions s) = [])) \<and>
    (\<forall>stripeSubscription n v u.
       subscriptionId \<noteq> [] \<and> uid \<noteq> [] \<and> cust \<noteq> [] \<and>
       pg_uuid uid = Some v \<and> filter (\<lambda>u. pg_uuid (u_id u) = Some v) (users s) = [u] \<and>
       retrieve e subscriptionId = Some stripeSubscription \<and>
       ss_current_period_end stripeSubscription = Some n \<and>
       - 8640000000000000 \<le> n * 1000 \<and> n * 1000 \<le> 8640000000000000 \<and>
       \<not> db_error e UpsertUser \<and> \<not> db_error e UpsertCheck \<and>
       \<not> db_error e UpsertUpdate \<and> \<not> db_error e UpsertInsert \<longrightarrow>
       (\<exists>res s'. createSubscription e s subscriptionId uid cust = Inr (res, s')))"
proof (cases "rows_with_id s subscriptionId")
  case Nil
  then have none: "filter (\<lambda>r. stripe_subscription_id r = subscriptionId) (subscriptions s) = []"
    by (simp add: rows_with_id_def)
  show ?thesis
    unfolding none
    by (auto simp: createSubscription_def Nil select_single_def Let_def newSubscription_def
        first_price_def toISOString_def users_with_id_def
        split: if_splits option.splits)
next
  case (Cons existingData rest)
  with unique have one: "rows_with_id s subscriptionId = [existingData]"
    by (simp add: rows_with_id_def)
  then have flt: "filter (\<lambda>r. stripe_subscription_id r = subscriptionId) (subscriptions s)
      = [existingData]"
    by (simp add: rows_with_id_def)
  show ?thesis
    unfolding flt
    by (auto simp: createSubscription_def one select_single_def Let_def update_where_def
        refresh_row_def toISOString_def users_with_id_def
        split: if_splits option.splits)
qed

theorem createSubscription_upsert_frame_witness:
  "subscriptions two_active_store = [row_ada_old, row_ada] \<and>
   stripe_subscription_id row_ada_old = ''sub_0'' \<and> stripe_subscription_id row_ada = ''sub_1'' \<and>
   length (filter (\<lambda>r. stripe_subscription_id r = ''sub_1'')
             (subscriptions two_active_store)) \<le> 1 \<and>
   length (filter (\<lambda>r. stripe_subscription_id r = ''sub_3'')
             (subscriptions two_active_store)) \<le> 1 \<and>
   createSubscription provider_retry two_active_store ''sub_1''
      ''22222222-2222-4222-8222-222222222222'' ''cus_9'' =
     Inr (Some row_ada,
          two_active_store\<lparr>subscriptions := [row_ada_old, row_ada\<lparr>updated_at := 9000\<rparr>]\<rparr>) \<and>
   createSubscription provider_retry two_active_store ''sub_3''
      ''22222222-2222-4222-8222-222222222222'' ''cus_2'' =
     Inr (Some \<lparr>user_id = ''22222222-2222-4222-8222-222222222222'',
                stripe_customer_id = ''cus_2'', stripe_subscription_id = ''sub_3'',
                status = ''trialing'', price_id = ''unknown'',
                current_period_end = 1900000, cancel_at_period_end = False,
                created_at = 9000, updated_at = 9001\<rparr>,
          two_active_store\<lparr>subscriptions := [row_ada_old, row_ada,
              \<lparr>user_id = ''22222222-2222-4222-8222-222222222222'',
                stripe_customer_id = ''cus_2'', stripe_subscription_id = ''sub_3'',
                status = ''trialing'', price_id = ''unknown'',
                current_period_end = 1900000, cancel_at_period_end = False,
                created_at = 9000, updated_at = 9001\<rparr>]\<rparr>) \<and>
   createSubscription provider_far one_active_store ''sub_1''
      ''11111111-1111-4111-8111-111111111111'' ''cus_1'' = Inl RangeError"
proof -
  have u1: "length (filter (\<lambda>r. stripe_subscription_id r = ''sub_1'')
                      (subscriptions two_active_store)) \<le> 1"
    and u3: "length (filter (\<lambda>r. stripe_subscription_id r = ''sub_3'')
                      (subscriptions two_active_store)) \<le> 1"
    by (simp_all add: example_defs)
  have rows: "subscriptions two_active_store = [row_ada_old, row_ada] \<and>
      stripe_subscription_id row_ada_old = ''sub_0'' \<and> stripe_subscription_id row_ada = ''sub_1''"
    by (simp add: example_defs)
  have stored: "createSubscription provider_retry two_active_store ''sub_1''
      ''22222222-2222-4222-8222-222222222222'' ''cus_9'' =
     Inr (Some row_ada,
          two_active_store\<lparr>subscriptions := [row_ada_old, row_ada\<lparr>updated_at := 9000\<rparr>]\<rparr>)"
    by (simp add: route_defs example_defs uuid_examples)
  have fresh: "createSubscription provider_retry two_active_store ''sub_3''
      ''22222222-2222-4222-8222-222222222222'' ''cus_2'' =
     Inr (Some \<lparr>user_id = ''22222222-2222-4222-8222-222222222222'',
                stripe_customer_id = ''cus_2'', stripe_subscription_id = ''sub_3'',
                status = ''trialing'', price_id = ''unknown'',
                current_period_end = 1900000, cancel_at_period_end = False,
                created_at = 9000, updated_at = 9001\<rparr>,
          two_active_store\<lparr>subscriptions := [row_ada_old, row_ada,
              \<lparr>user_id = ''22222222-2222-4222-8222-222222222222'',
                stripe_customer_id = ''cus_2'', stripe_subscription_id = ''sub_3'',
                status = ''trialing'', price_id = ''unknown'',
                current_period_end = 1900000, cancel_at_period_end = False,
                created_at = 9000, updated_at = 9001\<rparr>]\<rparr>)"
    by (simp add: route_defs example_defs uuid_examples)
  have thrown: "createSubscription provider_far one_active_store ''sub_1''
      ''11111111-1111-4111-8111-111111111111'' ''cus_1'' = Inl RangeError"
    by (simp add: route_defs example_defs uuid_examples)
  note frame_stored = createSubscription_upsert_frame [OF u1, of provider_retry
      "''22222222-2222-4222-8222-222222222222''" "''cus_9''",
      THEN conjunct1, rule_format, OF stored]
  note frame_fresh = createSubscription_upsert_frame [OF u3, of provider_retry
      "''22222222-2222-4222-8222-222222222222''" "''cus_2''",
      THEN conjunct1, rule_format, OF fresh]
  have "users (two_active_store\<lparr>subscriptions := [row_ada_old, row_ada\<lparr>updated_at := 9000\<rparr>]\<rparr>)
      = users two_active_store"
    using frame_stored by (rule conjunct1)
  moreover have "users (two_active_store\<lparr>subscriptions := [row_ada_old, row_ada,
              \<lparr>user_id = ''22222222-2222-4222-8222-222222222222'',
                stripe_customer_id = ''cus_2'', stripe_subscription_id = ''sub_3'',
                status = ''trialing'', price_id = ''unknown'',
                current_period_end = 1900000, cancel_at_period_end = False,
                created_at = 9000, updated_at = 9001\<rparr>]\<rparr>) = users two_active_store"
    using frame_fresh by (rule conjunct1)
  ultimately show ?thesis
    using rows u1 u3 stored fresh thrown by simp
qed

subsection \<open>Checkout completion\<close>




text \<open>
  Claim C3 on a concrete input. The customer \<^verbatim>\<open>cus_1\<close> has two stored subscriptions,
  one trialing and one active, and completes a checkout for a third. The duplicate
  check asks for \<^verbatim>\<open>.single()\<close>, which yields no data for two rows, so the check
  answers false: the handler requests no cancellation, answers 200
  \<^verbatim>\<open>{received: true}\<close> and inserts a row for the new subscription. A store with two
  active rows for one customer is reached by the handler itself: a subscription goes
  past due, the customer checks out another, and the first becomes active again.
\<close>

theorem second_active_subscription_not_blocked:
  "filter (\<lambda>r. stripe_customer_id r = ''cus_1'' \<and>
               (status r = ''active'' \<or> status r = ''trialing''))
     (subscriptions two_active_store) = [row_ada_old, row_ada] \<and>
   customer checkout_ada_again = Some ''cus_1'' \<and>
   subscription checkout_ada_again = Some ''sub_2'' \<and>
   POST provider_ok two_active_store (Some (CheckoutSessionCompleted checkout_ada_again)) =
     ((200, Received),
      two_active_store\<lparr>subscriptions :=
        [row_ada_old, row_ada,
         \<lparr>user_id = ''11111111-1111-4111-8111-111111111111'',
          stripe_customer_id = ''cus_1'', stripe_subscription_id = ''sub_2'',
          status = ''active'', price_id = ''price_basic'', current_period_end = 1800000,
          cancel_at_period_end = False, created_at = 5000, updated_at = 5001\<rparr>]\<rparr>) \<and>
   cancel_requests two_active_store = [] \<and>
   deliver provider_ok empty_store
     [CheckoutSessionCompleted checkout_ada, SubscriptionUpdated sub_1_past_due,
      CheckoutSessionCompleted checkout_ada_again, SubscriptionUpdated sub_1,
      CheckoutSessionCompleted checkout_ada_third] =
     empty_store\<lparr>subscriptions :=
        [row_ada\<lparr>updated_at := 5000\<rparr>,
         \<lparr>user_id = ''11111111-1111-4111-8111-111111111111'',
          stripe_customer_id = ''cus_1'', stripe_subscription_id = ''sub_2'',
          status = ''active'', price_id = ''price_basic'', current_period_end = 1800000,
          cancel_at_period_end = False, created_at = 5000, updated_at = 5001\<rparr>,
         \<lparr>user_id = ''11111111-1111-4111-8111-111111111111'',
          stripe_customer_id = ''cus_1'', stripe_subscription_id = ''sub_4'',
          status = ''active'', price_id = ''price_basic'', current_period_end = 2000000,
          cancel_at_period_end = False, created_at = 5000, updated_at = 5001\<rparr>]\<rparr>"
  by (simp add: route_defs example_defs uuid_examples Let_def)

text \<open>
  Claim C4 on a concrete input. The session carries no client reference and the email
  \<^verbatim>\<open>pat_lee@example.com\<close>; no user has that email, whatever the case of the
  letters. The lookup is an \<^verbatim>\<open>ILIKE\<close> whose pattern is the email, so its underscore
  matches the dot of \<^verbatim>\<open>pat.lee@example.com\<close>: the handler resolves that user,
  answers 200 and writes a subscription row for them.
\<close>

theorem wildcard_email_resolves_other_user:
  "client_reference_id checkout_pat_lee = None \<and>
   session_email checkout_pat_lee = Some ''pat_lee@example.com'' \<and>
   filter (\<lambda>u. map lower_char (u_email u) = map lower_char ''pat_lee@example.com'')
     (users empty_store) = [] \<and>
   findUserIdByEmail False empty_store ''pat_lee@example.com''
     = Some ''22222222-2222-4222-8222-222222222222'' \<and>
   POST provider_ok empty_store (Some (CheckoutSessionCompleted checkout_pat_lee)) =
     ((200, Received),
      empty_store\<lparr>subscriptions :=
        [\<lparr>user_id = ''22222222-2222-4222-8222-222222222222'',
          stripe_customer_id = ''cus_2'', stripe_subscription_id = ''sub_3'',
          status = ''trialing'', price_id = ''unknown'', current_period_end = 1900000,
          cancel_at_period_end = False, created_at = 5000, updated_at = 5001\<rparr>]\<rparr>)"
  by (simp add: route_defs example_defs uuid_examples Let_def)

text \<open>
  Claim C2 on a concrete input. The first delivery of a checkout event for a user that
  exists inserts one row, with the provider's status \<^verbatim>\<open>active\<close>. The second delivery
  of the same event finds that very row in the duplicate check: it requests the
  cancellation of the subscription, answers \<^verbatim>\<open>blocked\<close>, and leaves the row as it
  was (its updated timestamp is still the first delivery's).
\<close>

theorem redelivery_cancels_instead_of_updating:
  "POST provider_ok empty_store (Some (CheckoutSessionCompleted checkout_ada))
     = ((200, Received), one_active_store) \<and>
   subscriptions one_active_store = [row_ada] \<and>
   POST provider_retry one_active_store (Some (CheckoutSessionCompleted checkout_ada))
     = ((200, Blocked), one_active_store\<lparr>cancel_requests := [''sub_1'']\<rparr>) \<and>
   updated_at row_ada = 5001 \<and> clock provider_retry 0 = 9000"
  by (simp add: route_defs example_defs uuid_examples Let_def)

subsection \<open>Events out of order\<close>

text \<open>
  Claim C1 on a concrete input. Checkout completion for \<^verbatim>\<open>sub_1\<close> writes the row and
  records nothing in \<^verbatim>\<open>checkoutSessionMap\<close>: the handler has no
  \<^verbatim>\<open>checkoutSessionMap.set\<close>. The \<^verbatim>\<open>customer.subscription.created\<close> event that
  follows finds no association for \<^verbatim>\<open>sub_1\<close>, so it consumes nothing, upserts nothing
  and discards nothing; it puts the subscription into \<^verbatim>\<open>pendingSubscriptions\<close>. In
  the other order the entry that the created event puts into \<^verbatim>\<open>pendingSubscriptions\<close>
  is still there after checkout completion, which neither reads nor removes it; the
  single row comes from the upsert of the checkout handler.
\<close>

theorem checkout_records_no_association:
  "POST provider_ok empty_store (Some (CheckoutSessionCompleted checkout_ada))
     = ((200, Received), one_active_store) \<and>
   checkoutSessionMap one_active_store ''sub_1'' = None \<and>
   POST provider_retry one_active_store (Some (SubscriptionCreated sub_1)) =
     ((200, Received),
      one_active_store\<lparr>pendingSubscriptions :=
        [''sub_1'' \<mapsto> \<lparr>pending_id = ''sub_1'', pending_customer = ''cus_1''\<rparr>]\<rparr>) \<and>
   deliver provider_ok empty_store
     [SubscriptionCreated sub_1, CheckoutSessionCompleted checkout_ada] =
     one_active_store\<lparr>pendingSubscriptions :=
        [''sub_1'' \<mapsto> \<lparr>pending_id = ''sub_1'', pending_customer = ''cus_1''\<rparr>]\<rparr>"
  by (simp add: route_defs example_defs uuid_examples Let_def)

end
